theory Spec2Isabelle
  imports Main "HOL-Library.Finite_Map"
begin

section \<open>OpenStack infrastructure: Terraformer chart values and status\<close>

text \<open>
  A shallow embedding of \<^verbatim>\<open>pkg/internal/infrastructure/terraform.go\<close>.

  Conventions of the embedding:
  \<^item> a Go pointer or interface argument is an \<open>option\<close>: \<open>None\<close> is \<^verbatim>\<open>nil\<close>;
  \<^item> a Go call either panics (dereferencing \<^verbatim>\<open>nil\<close>) or returns, so every function yields
    an \<open>outcome\<close>;
  \<^item> Go's two-valued return \<^verbatim>\<open>(result, error)\<close> is a pair of options, \<open>None\<close> again being
    \<^verbatim>\<open>nil\<close>, so that a result handed back next to an error is expressible;
  \<^item> Go's \<^verbatim>\<open>error\<close> interface is a type parameter \<open>'e\<close>: the functions here only pass
    errors on;
  \<^item> \<^verbatim>\<open>map[string]interface{}\<close> is a finite map from strings to \<open>gvalue\<close>, and
    \<^verbatim>\<open>map[string]string\<close> is a partial function, read with Go's zero value for a missing
    key (\<open>index_map\<close>).
\<close>

subsection \<open>Go values\<close>

datatype 'a outcome = Panic | Return 'a

datatype gvalue =
    VString string
  | VBool bool
  | VStrings "string list"
  | VMap "(string, gvalue) fmap"

definition index_map :: "(string \<rightharpoonup> string) \<Rightarrow> string \<Rightarrow> string" where
  "index_map m k = (case m k of None \<Rightarrow> [] | Some v \<Rightarrow> v)"

subsection \<open>Constants\<close>

definition TerraformerPurpose :: string where
  "TerraformerPurpose = ''infra''"

definition TerraformOutputKeySSHKeyName :: string where
  "TerraformOutputKeySSHKeyName = ''key_name''"

definition TerraformOutputKeyRouterID :: string where
  "TerraformOutputKeyRouterID = ''router_id''"

definition TerraformOutputKeyNetworkID :: string where
  "TerraformOutputKeyNetworkID = ''network_id''"

definition TerraformOutputKeySecurityGroupID :: string where
  "TerraformOutputKeySecurityGroupID = ''security_group_id''"

definition TerraformOutputKeySecurityGroupName :: string where
  "TerraformOutputKeySecurityGroupName = ''security_group_name''"

definition TerraformOutputKeyFloatingNetworkID :: string where
  "TerraformOutputKeyFloatingNetworkID = ''floating_network_id''"

definition TerraformOutputKeySubnetID :: string where
  "TerraformOutputKeySubnetID = ''subnet_id''"

definition DefaultRouterID :: string where
  "DefaultRouterID = ''${openstack_networking_router_v2.router.id}''"

text \<open>
  Modelled from the spec: the constant \<^verbatim>\<open>apiv1alpha1.PurposeNodes\<close> lives in
  \<^verbatim>\<open>pkg/apis/openstack/v1alpha1\<close>, which is not among the sources; the specification gives
  its value as \<^verbatim>\<open>"nodes"\<close>.
\<close>

definition PurposeNodes :: string where
  "PurposeNodes = ''nodes''"

subsection \<open>Inputs\<close>

text \<open>
  The types below are declared in packages outside the sources; each record lists the
  fields that \<^verbatim>\<open>terraform.go\<close> reads, under the names it reads them by (prefixed where
  two structs share a field name).
\<close>

record Router =
  Router_ID :: string

record Networks =
  Networks_Router :: "Router option"
  Worker :: string
  Workers :: string

record InfrastructureConfig =
  FloatingPoolName :: string
  Config_Networks :: Networks

record Credentials =
  DomainName :: string
  TenantName :: string

record InfrastructureSpec =
  Region :: string
  SSHPublicKey :: string

record Infrastructure =
  Namespace :: string
  Spec :: InfrastructureSpec

record 'k CloudProfileConfig =
  KeyStoneURLs :: 'k
  KeyStoneURL :: string
  DNSServers :: "string list"

text \<open>
  The two functions of package \<^verbatim>\<open>helper\<close> that \<open>ComputeTerraformerChartValues\<close> calls are
  not among the sources. They are parameters of the embedding: \<open>'c\<close> is
  \<^verbatim>\<open>controller.Cluster\<close> and \<open>'k\<close> the type of the per-region endpoint table.
\<close>

record ('c, 'k, 'e) helper =
  CloudProfileConfigFromCluster :: "'c option \<Rightarrow> 'k CloudProfileConfig option \<times> 'e option"
  FindKeyStoneURL :: "'k \<Rightarrow> string \<Rightarrow> string \<Rightarrow> string \<times> 'e option"

text \<open>
  Of the interface \<^verbatim>\<open>terraformer.Terraformer\<close> only the method
  \<^verbatim>\<open>GetStateOutputVariables(keys ...string) (map[string]string, error)\<close> is called.
\<close>

record 'e Terraformer =
  GetStateOutputVariables :: "string list \<Rightarrow> (string \<rightharpoonup> string) \<times> 'e option"

subsection \<open>Outputs\<close>

record TypeMeta =
  APIVersion :: string
  Kind :: string

record FloatingPoolStatus =
  FloatingPoolStatus_ID :: string
  FloatingPoolStatus_Name :: string

record RouterStatus =
  RouterStatus_ID :: string

record Subnet =
  Subnet_Purpose :: string
  Subnet_ID :: string

record NetworkStatus =
  NetworkStatus_ID :: string
  FloatingPool :: FloatingPoolStatus
  NetworkStatus_Router :: RouterStatus
  Subnets :: "Subnet list"

record SecurityGroup =
  SecurityGroup_Purpose :: string
  SecurityGroup_ID :: string
  SecurityGroup_Name :: string

record NodeStatus =
  KeyName :: string

record InfrastructureStatus =
  Status_TypeMeta :: TypeMeta
  Status_Networks :: NetworkStatus
  SecurityGroups :: "SecurityGroup list"
  Node :: NodeStatus

record TerraformState =
  SSHKeyName :: string
  RouterID :: string
  NetworkID :: string
  SubnetID :: string
  FloatingNetworkID :: string
  SecurityGroupID :: string
  SecurityGroupName :: string

text \<open>
  \<^verbatim>\<open>apiv1alpha1.SchemeGroupVersion\<close> is declared outside the sources; the string it renders
  to is the parameter \<open>sgv\<close> of everything that stamps type metadata.
\<close>

definition StatusTypeMeta :: "string \<Rightarrow> TypeMeta" where
  "StatusTypeMeta sgv = \<lparr>APIVersion = sgv, Kind = ''InfrastructureStatus''\<rparr>"

subsection \<open>ComputeTerraformerChartValues\<close>

definition ComputeTerraformerChartValues ::
  "('c, 'k, 'e) helper \<Rightarrow> Infrastructure option \<Rightarrow> Credentials option \<Rightarrow>
   InfrastructureConfig option \<Rightarrow> 'c option \<Rightarrow>
   ((string, gvalue) fmap option \<times> 'e option) outcome" where
  "ComputeTerraformerChartValues h infra credentials config cluster =
    (case config of
      None \<Rightarrow> Panic
    | Some cfg \<Rightarrow>
      let (createRouter, routerID) =
            (case Networks_Router (Config_Networks cfg) of
               Some router \<Rightarrow> (False, Router_ID router)
             | None \<Rightarrow> (True, DefaultRouterID))
      in
      (case CloudProfileConfigFromCluster h cluster of
        (_, Some err) \<Rightarrow> Return (None, Some err)
      | (None, None) \<Rightarrow> Panic
      | (Some cloudProfileConfig, None) \<Rightarrow>
        (case infra of
          None \<Rightarrow> Panic
        | Some infr \<Rightarrow>
          (case FindKeyStoneURL h (KeyStoneURLs cloudProfileConfig)
                  (KeyStoneURL cloudProfileConfig) (Region (Spec infr)) of
            (_, Some err) \<Rightarrow> Return (None, Some err)
          | (keyStoneURL, None) \<Rightarrow>
            let workersCIDR = Workers (Config_Networks cfg);
                workersCIDR = (if workersCIDR = [] then Worker (Config_Networks cfg)
                               else workersCIDR)
            in
            (case credentials of
              None \<Rightarrow> Panic
            | Some creds \<Rightarrow>
              Return (Some (fmap_of_list [
                (''openstack'', VMap (fmap_of_list [
                  (''authURL'', VString keyStoneURL),
                  (''domainName'', VString (DomainName creds)),
                  (''tenantName'', VString (TenantName creds)),
                  (''region'', VString (Region (Spec infr))),
                  (''floatingPoolName'', VString (FloatingPoolName cfg))])),
                (''create'', VMap (fmap_of_list [
                  (''router'', VBool createRouter)])),
                (''dnsServers'', VStrings (DNSServers cloudProfileConfig)),
                (''sshPublicKey'', VString (SSHPublicKey (Spec infr))),
                (''router'', VMap (fmap_of_list [
                  (''id'', VString routerID)])),
                (''clusterName'', VString (Namespace infr)),
                (''networks'', VMap (fmap_of_list [
                  (''workers'', VString workersCIDR)])),
                (''outputKeys'', VMap (fmap_of_list [
                  (''routerID'', VString TerraformOutputKeyRouterID),
                  (''networkID'', VString TerraformOutputKeyNetworkID),
                  (''keyName'', VString TerraformOutputKeySSHKeyName),
                  (''securityGroupID'', VString TerraformOutputKeySecurityGroupID),
                  (''securityGroupName'', VString TerraformOutputKeySecurityGroupName),
                  (''floatingNetworkID'', VString TerraformOutputKeyFloatingNetworkID),
                  (''subnetID'', VString TerraformOutputKeySubnetID)]))]),
                None))))))"

subsection \<open>ExtractTerraformState\<close>

definition ExtractTerraformState ::
  "'e Terraformer option \<Rightarrow> InfrastructureConfig option \<Rightarrow>
   (TerraformState option \<times> 'e option) outcome" where
  "ExtractTerraformState tf config =
    (let outputKeys = [
           TerraformOutputKeySSHKeyName,
           TerraformOutputKeyRouterID,
           TerraformOutputKeyNetworkID,
           TerraformOutputKeySubnetID,
           TerraformOutputKeyFloatingNetworkID,
           TerraformOutputKeySecurityGroupID,
           TerraformOutputKeySecurityGroupName]
     in
     (case tf of
       None \<Rightarrow> Panic
     | Some t \<Rightarrow>
       (case GetStateOutputVariables t outputKeys of
         (_, Some err) \<Rightarrow> Return (None, Some err)
       | (vars, None) \<Rightarrow>
         Return (Some \<lparr>
           SSHKeyName = index_map vars TerraformOutputKeySSHKeyName,
           RouterID = index_map vars TerraformOutputKeyRouterID,
           NetworkID = index_map vars TerraformOutputKeyNetworkID,
           SubnetID = index_map vars TerraformOutputKeySubnetID,
           FloatingNetworkID = index_map vars TerraformOutputKeyFloatingNetworkID,
           SecurityGroupID = index_map vars TerraformOutputKeySecurityGroupID,
           SecurityGroupName = index_map vars TerraformOutputKeySecurityGroupName\<rparr>,
           None))))"

subsection \<open>StatusFromTerraformState\<close>

definition StatusFromTerraformState ::
  "string \<Rightarrow> TerraformState option \<Rightarrow> InfrastructureStatus outcome" where
  "StatusFromTerraformState sgv state =
    (case state of
      None \<Rightarrow> Panic
    | Some st \<Rightarrow>
      Return \<lparr>
        Status_TypeMeta = \<lparr>APIVersion = sgv, Kind = ''InfrastructureStatus''\<rparr>,
        Status_Networks = \<lparr>
          NetworkStatus_ID = NetworkID st,
          FloatingPool = \<lparr>
            FloatingPoolStatus_ID = FloatingNetworkID st,
            FloatingPoolStatus_Name = []\<rparr>,
          NetworkStatus_Router = \<lparr>RouterStatus_ID = RouterID st\<rparr>,
          Subnets = [\<lparr>Subnet_Purpose = PurposeNodes, Subnet_ID = SubnetID st\<rparr>]\<rparr>,
        SecurityGroups = [\<lparr>
          SecurityGroup_Purpose = PurposeNodes,
          SecurityGroup_ID = SecurityGroupID st,
          SecurityGroup_Name = SecurityGroupName st\<rparr>],
        Node = \<lparr>KeyName = SSHKeyName st\<rparr>\<rparr>)"

subsection \<open>ComputeStatus\<close>

definition ComputeStatus ::
  "string \<Rightarrow> 'e Terraformer option \<Rightarrow> InfrastructureConfig option \<Rightarrow>
   (InfrastructureStatus option \<times> 'e option) outcome" where
  "ComputeStatus sgv tf config =
    (case ExtractTerraformState tf config of
      Panic \<Rightarrow> Panic
    | Return (_, Some err) \<Rightarrow> Return (None, Some err)
    | Return (state, None) \<Rightarrow>
      (case StatusFromTerraformState sgv state of
        Panic \<Rightarrow> Panic
      | Return status \<Rightarrow>
        (case config of
          None \<Rightarrow> Panic
        | Some cfg \<Rightarrow>
          Return (Some (status\<lparr>Status_Networks :=
                    (Status_Networks status)\<lparr>FloatingPool :=
                      (FloatingPool (Status_Networks status))\<lparr>FloatingPoolStatus_Name :=
                        FloatingPoolName cfg\<rparr>\<rparr>\<rparr>),
                  None))))"

subsection \<open>Collaborators and sample inputs\<close>

text \<open>
  Modelled from the spec: the error kinds of section 7 of the specification. The Go code
  passes on whatever \<^verbatim>\<open>error\<close> its collaborators return; these kinds instantiate \<open>'e\<close>
  where a concrete run is evaluated.
\<close>

datatype error = ConfigDecodeError | ConfigResolutionError | RenderError | StateAccessError

text \<open>
  Modelled from the spec: an entry of the per-region endpoint table, \<^verbatim>\<open>{region, url}\<close> in
  section 6 of the specification; its Go type is declared in \<^verbatim>\<open>pkg/apis/openstack\<close>,
  which is not among the sources.
\<close>

record KeyStoneURLEntry =
  Entry_Region :: string
  Entry_URL :: string

text \<open>
  Modelled from the spec: \<^verbatim>\<open>helper.FindKeyStoneURL\<close>, whose package is not among the
  sources. Section 4.1 of the specification: look the region up in the table; if present,
  return its URL; else if the fallback is non-empty, return it; else fail with
  \<^verbatim>\<open>ConfigResolutionError\<close>.
\<close>

definition helper_FindKeyStoneURL ::
  "KeyStoneURLEntry list \<Rightarrow> string \<Rightarrow> string \<Rightarrow> string \<times> error option" where
  "helper_FindKeyStoneURL keyStoneURLs keystoneURL region =
    (case find (\<lambda>k. Entry_Region k = region) keyStoneURLs of
      Some k \<Rightarrow> (Entry_URL k, None)
    | None \<Rightarrow>
      if keystoneURL \<noteq> [] then (keystoneURL, None)
      else ([], Some ConfigResolutionError))"

text \<open>
  Sample collaborators and inputs, on which the functions are evaluated below: a cloud
  profile with one endpoint for region \<^verbatim>\<open>eu\<close> that cannot be decoded without a cluster, and
  an output store that either fails or answers with the requested keys it holds.
\<close>

definition example_helper :: "(unit, KeyStoneURLEntry list, error) helper" where
  "example_helper = \<lparr>
     CloudProfileConfigFromCluster = (\<lambda>cluster.
       (case cluster of
         None \<Rightarrow> (None, Some ConfigDecodeError)
       | Some _ \<Rightarrow> (Some \<lparr>
           KeyStoneURLs = [\<lparr>Entry_Region = ''eu'', Entry_URL = ''https://eu.example''\<rparr>],
           KeyStoneURL = [],
           DNSServers = [''10.10.10.10'']\<rparr>, None))),
     FindKeyStoneURL = helper_FindKeyStoneURL\<rparr>"

definition example_infra :: "string \<Rightarrow> Infrastructure" where
  "example_infra region = \<lparr>Namespace = ''shoot-1'',
     Spec = \<lparr>Region = region, SSHPublicKey = ''ssh-rsa AAAA''\<rparr>\<rparr>"

definition example_credentials :: Credentials where
  "example_credentials = \<lparr>DomainName = ''domain'', TenantName = ''tenant''\<rparr>"

definition example_config :: "Router option \<Rightarrow> string \<Rightarrow> string \<Rightarrow> InfrastructureConfig" where
  "example_config router workers worker = \<lparr>FloatingPoolName = ''ext-net'',
     Config_Networks = \<lparr>Networks_Router = router, Worker = worker, Workers = workers\<rparr>\<rparr>"

definition example_terraformer :: "(string \<rightharpoonup> string) \<Rightarrow> error option \<Rightarrow> error Terraformer" where
  "example_terraformer store err = \<lparr>GetStateOutputVariables = (\<lambda>keys.
     (case err of
       Some e \<Rightarrow> (Map.empty, Some e)
     | None \<Rightarrow> (store |` set keys, None)))\<rparr>"


section \<open>Properties\<close>

subsection \<open>Auxiliary facts\<close>

lemmas key_defs = TerraformOutputKeySSHKeyName_def TerraformOutputKeyRouterID_def
  TerraformOutputKeyNetworkID_def TerraformOutputKeySecurityGroupID_def
  TerraformOutputKeySecurityGroupName_def TerraformOutputKeyFloatingNetworkID_def
  TerraformOutputKeySubnetID_def

lemma fmran'_of_list:
  "distinct (map fst xs) \<Longrightarrow> fmran' (fmap_of_list xs) = snd ` set xs"
proof -
  assume d: "distinct (map fst xs)"
  have "fmran' (fmap_of_list xs) = ran (map_of xs)"
    by (auto simp: ran_def fmlookup_of_list intro: fmran'I elim!: fmran'E)
  then show ?thesis using d by (simp add: ran_distinct)
qed

lemma ComputeTerraformerChartValues_result:
  assumes "CloudProfileConfigFromCluster h cluster = (Some cpc, None)"
      and "FindKeyStoneURL h (KeyStoneURLs cpc) (KeyStoneURL cpc) (Region (Spec infr)) = (url, None)"
  shows "\<exists>vals. ComputeTerraformerChartValues h (Some infr) (Some creds) (Some cfg) cluster
           = Return (Some vals, None)
         \<and> fmlookup vals ''create'' = Some (VMap (fmap_of_list
             [(''router'', VBool (Networks_Router (Config_Networks cfg) = None))]))
         \<and> fmlookup vals ''router'' = Some (VMap (fmap_of_list
             [(''id'', VString (case Networks_Router (Config_Networks cfg) of
                 None \<Rightarrow> DefaultRouterID | Some r \<Rightarrow> Router_ID r))]))
         \<and> fmlookup vals ''networks'' = Some (VMap (fmap_of_list
             [(''workers'', VString (if Workers (Config_Networks cfg) = []
                 then Worker (Config_Networks cfg) else Workers (Config_Networks cfg)))]))"
  using assms unfolding ComputeTerraformerChartValues_def
  by (simp add: Let_def split: option.splits)

lemma example_decode:
  "CloudProfileConfigFromCluster example_helper (Some ()) = (Some \<lparr>
     KeyStoneURLs = [\<lparr>Entry_Region = ''eu'', Entry_URL = ''https://eu.example''\<rparr>],
     KeyStoneURL = [],
     DNSServers = [''10.10.10.10'']\<rparr>, None)"
  by (simp add: example_helper_def)

lemma example_find_eu:
  "FindKeyStoneURL example_helper
     (KeyStoneURLs \<lparr>
       KeyStoneURLs = [\<lparr>Entry_Region = ''eu'', Entry_URL = ''https://eu.example''\<rparr>],
       KeyStoneURL = [],
       DNSServers = [''10.10.10.10'']\<rparr>)
     (KeyStoneURL \<lparr>
       KeyStoneURLs = [\<lparr>Entry_Region = ''eu'', Entry_URL = ''https://eu.example''\<rparr>],
       KeyStoneURL = [],
       DNSServers = [''10.10.10.10'']\<rparr>)
     (Region (Spec (example_infra ''eu''))) = (''https://eu.example'', None)"
  by (simp add: example_helper_def helper_FindKeyStoneURL_def example_infra_def)

lemma example_find_us:
  "FindKeyStoneURL example_helper
     (KeyStoneURLs \<lparr>
       KeyStoneURLs = [\<lparr>Entry_Region = ''eu'', Entry_URL = ''https://eu.example''\<rparr>],
       KeyStoneURL = [],
       DNSServers = [''10.10.10.10'']\<rparr>)
     (KeyStoneURL \<lparr>
       KeyStoneURLs = [\<lparr>Entry_Region = ''eu'', Entry_URL = ''https://eu.example''\<rparr>],
       KeyStoneURL = [],
       DNSServers = [''10.10.10.10'']\<rparr>)
     (Region (Spec (example_infra ''us''))) = ([], Some ConfigResolutionError)"
  by (simp add: example_helper_def helper_FindKeyStoneURL_def example_infra_def)

lemma example_extract:
  "ExtractTerraformState
     (Some (example_terraformer [''floating_network_id'' \<mapsto> ''net-123''] None)) config
   = Return (Some \<lparr>SSHKeyName = [], RouterID = [], NetworkID = [], SubnetID = [],
       FloatingNetworkID = ''net-123'', SecurityGroupID = [], SecurityGroupName = []\<rparr>, None)"
  by (simp add: ExtractTerraformState_def example_terraformer_def index_map_def key_defs)

lemma ExtractTerraformState_fails:
  assumes "GetStateOutputVariables t [TerraformOutputKeySSHKeyName, TerraformOutputKeyRouterID,
             TerraformOutputKeyNetworkID, TerraformOutputKeySubnetID,
             TerraformOutputKeyFloatingNetworkID, TerraformOutputKeySecurityGroupID,
             TerraformOutputKeySecurityGroupName] = (vars, Some err)"
  shows "ExtractTerraformState (Some t) config = Return (None, Some err)"
  using assms by (simp add: ExtractTerraformState_def)

lemma ExtractTerraformState_not_both:
  "ExtractTerraformState tf config \<noteq> Return (Some state, Some err)"
  by (simp add: ExtractTerraformState_def split: option.splits prod.splits)

lemma ComputeStatus_not_both:
  "ComputeStatus sgv tf config \<noteq> Return (Some status, Some err)"
  by (simp add: ComputeStatus_def split: outcome.splits option.splits prod.splits)

lemma ComputeTerraformerChartValues_not_both:
  "ComputeTerraformerChartValues h infra credentials config cluster
   \<noteq> Return (Some vals, Some err)"
  by (simp add: ComputeTerraformerChartValues_def Let_def split: option.splits prod.splits)

subsection \<open>The output-key contract\<close>

text \<open>
  Claim C1. The output keys are the literal strings \<^verbatim>\<open>key_name\<close>, \<^verbatim>\<open>router_id\<close>,
  \<^verbatim>\<open>network_id\<close>, \<^verbatim>\<open>security_group_id\<close>, \<^verbatim>\<open>security_group_name\<close>,
  \<^verbatim>\<open>floating_network_id\<close> and \<^verbatim>\<open>subnet_id\<close>, and the set of keys that
  \<open>ExtractTerraformState\<close> requests from the output store equals the set of values of the
  \<^verbatim>\<open>outputKeys\<close> sub-map that \<open>ComputeTerraformerChartValues\<close> produces. The requested keys
  are observed through an output store that fails with the very keys it was asked for.
\<close>

theorem output_key_contract:
  assumes "ExtractTerraformState
             (Some \<lparr>GetStateOutputVariables = (\<lambda>keys. (Map.empty, Some keys))\<rparr>) config'
           = Return (state, Some requested)"
      and "ComputeTerraformerChartValues h infra credentials config cluster
           = Return (Some vals, err)"
  shows "set requested = {''key_name'', ''router_id'', ''network_id'', ''security_group_id'',
           ''security_group_name'', ''floating_network_id'', ''subnet_id''}
         \<and> (\<exists>outputKeys. fmlookup vals ''outputKeys'' = Some (VMap outputKeys)
               \<and> fmran' outputKeys = VString ` set requested)"
proof -
  from assms(1) have r: "requested = [TerraformOutputKeySSHKeyName, TerraformOutputKeyRouterID,
      TerraformOutputKeyNetworkID, TerraformOutputKeySubnetID, TerraformOutputKeyFloatingNetworkID,
      TerraformOutputKeySecurityGroupID, TerraformOutputKeySecurityGroupName]"
    by (simp add: ExtractTerraformState_def)
  have s: "set requested = {''key_name'', ''router_id'', ''network_id'', ''security_group_id'',
           ''security_group_name'', ''floating_network_id'', ''subnet_id''}"
    unfolding r key_defs by auto
  from assms(2) have v: "fmlookup vals ''outputKeys'' = Some (VMap (fmap_of_list [
      (''routerID'', VString TerraformOutputKeyRouterID),
      (''networkID'', VString TerraformOutputKeyNetworkID),
      (''keyName'', VString TerraformOutputKeySSHKeyName),
      (''securityGroupID'', VString TerraformOutputKeySecurityGroupID),
      (''securityGroupName'', VString TerraformOutputKeySecurityGroupName),
      (''floatingNetworkID'', VString TerraformOutputKeyFloatingNetworkID),
      (''subnetID'', VString TerraformOutputKeySubnetID)]))"
    unfolding ComputeTerraformerChartValues_def
    by (auto simp: Let_def split: option.splits prod.splits)
  have "fmran' (fmap_of_list [
      (''routerID'', VString TerraformOutputKeyRouterID),
      (''networkID'', VString TerraformOutputKeyNetworkID),
      (''keyName'', VString TerraformOutputKeySSHKeyName),
      (''securityGroupID'', VString TerraformOutputKeySecurityGroupID),
      (''securityGroupName'', VString TerraformOutputKeySecurityGroupName),
      (''floatingNetworkID'', VString TerraformOutputKeyFloatingNetworkID),
      (''subnetID'', VString TerraformOutputKeySubnetID)]) = VString ` set requested"
    unfolding r by (subst fmran'_of_list) auto
  with s v show ?thesis by blast
qed

theorem output_key_contract_witness:
  "ExtractTerraformState
     (Some \<lparr>GetStateOutputVariables = (\<lambda>keys. (Map.empty, Some keys))\<rparr>) None
   = Return (None, Some [''key_name'', ''router_id'', ''network_id'', ''subnet_id'',
       ''floating_network_id'', ''security_group_id'', ''security_group_name''])
   \<and> (\<exists>vals. ComputeTerraformerChartValues example_helper (Some (example_infra ''eu''))
         (Some example_credentials) (Some (example_config None ''10.250.0.0/19'' [])) (Some ())
       = Return (Some vals, None)
     \<and> (\<exists>outputKeys. fmlookup vals ''outputKeys'' = Some (VMap outputKeys)
       \<and> fmran' outputKeys = VString ` {''key_name'', ''router_id'', ''network_id'',
           ''security_group_id'', ''security_group_name'', ''floating_network_id'',
           ''subnet_id''}))"
proof -
  have e: "ExtractTerraformState
     (Some \<lparr>GetStateOutputVariables = (\<lambda>keys. (Map.empty, Some keys))\<rparr>) None
   = Return (None, Some [''key_name'', ''router_id'', ''network_id'', ''subnet_id'',
       ''floating_network_id'', ''security_group_id'', ''security_group_name''])"
    by (simp add: ExtractTerraformState_def key_defs)
  have d: "CloudProfileConfigFromCluster example_helper (Some ()) = (Some \<lparr>
           KeyStoneURLs = [\<lparr>Entry_Region = ''eu'', Entry_URL = ''https://eu.example''\<rparr>],
           KeyStoneURL = [],
           DNSServers = [''10.10.10.10'']\<rparr>, None)"
    by (simp add: example_helper_def)
  have f: "FindKeyStoneURL example_helper
      [\<lparr>Entry_Region = ''eu'', Entry_URL = ''https://eu.example''\<rparr>] []
      (Region (Spec (example_infra ''eu''))) = (''https://eu.example'', None)"
    by (simp add: example_helper_def helper_FindKeyStoneURL_def example_infra_def)
  from ComputeTerraformerChartValues_result [OF d, simplified, OF f]
  obtain vals where c: "ComputeTerraformerChartValues example_helper
      (Some (example_infra ''eu'')) (Some example_credentials)
      (Some (example_config None ''10.250.0.0/19'' [])) (Some ()) = Return (Some vals, None)"
    by blast
  note k = output_key_contract [OF e c]
  from k have "\<exists>outputKeys. fmlookup vals ''outputKeys'' = Some (VMap outputKeys)
      \<and> fmran' outputKeys = VString ` {''key_name'', ''router_id'', ''network_id'',
           ''security_group_id'', ''security_group_name'', ''floating_network_id'',
           ''subnet_id''}"
    by metis
  with e c show ?thesis by blast
qed

subsection \<open>The status reproduces the state\<close>

text \<open>
  Claim C2. For every Terraform state of seven arbitrary strings, \<open>StatusFromTerraformState\<close>
  returns a status that carries each of them unchanged: the network id, the router id, the
  floating-pool id and the node key name in their leaf fields, the subnet id in a
  one-element subnet list of purpose \<^verbatim>\<open>nodes\<close>, and the security-group id and name in a
  one-element security-group list of purpose \<^verbatim>\<open>nodes\<close>.
\<close>

theorem status_round_trip:
  "\<exists>status. StatusFromTerraformState sgv (Some st) = Return status
     \<and> NetworkStatus_ID (Status_Networks status) = NetworkID st
     \<and> RouterStatus_ID (NetworkStatus_Router (Status_Networks status)) = RouterID st
     \<and> FloatingPoolStatus_ID (FloatingPool (Status_Networks status)) = FloatingNetworkID st
     \<and> KeyName (Node status) = SSHKeyName st
     \<and> Subnets (Status_Networks status)
         = [\<lparr>Subnet_Purpose = ''nodes'', Subnet_ID = SubnetID st\<rparr>]
     \<and> SecurityGroups status
         = [\<lparr>SecurityGroup_Purpose = ''nodes'', SecurityGroup_ID = SecurityGroupID st,
             SecurityGroup_Name = SecurityGroupName st\<rparr>]"
  by (simp add: StatusFromTerraformState_def PurposeNodes_def)

subsection \<open>The floating pool of the computed status\<close>

text \<open>
  Claim C3. Whenever the extraction succeeds with some state, \<open>ComputeStatus\<close> returns a
  status whose floating-pool id is the state's floating-network id and whose floating-pool
  name is the configuration's floating-pool name. The run below is the specification's
  example: pool name \<^verbatim>\<open>ext-net\<close> and extracted id \<^verbatim>\<open>net-123\<close>.
\<close>

theorem compute_status_floating_pool:
  assumes "ExtractTerraformState tf (Some config) = Return (Some state, None)"
  shows "\<exists>status. ComputeStatus sgv tf (Some config) = Return (Some status, None)
           \<and> FloatingPool (Status_Networks status)
               = \<lparr>FloatingPoolStatus_ID = FloatingNetworkID state,
                  FloatingPoolStatus_Name = FloatingPoolName config\<rparr>"
  using assms by (simp add: ComputeStatus_def StatusFromTerraformState_def)

theorem compute_status_floating_pool_witness:
  "ExtractTerraformState
     (Some (example_terraformer [''floating_network_id'' \<mapsto> ''net-123''] None))
     (Some (example_config None [] []))
   = Return (Some \<lparr>SSHKeyName = [], RouterID = [], NetworkID = [], SubnetID = [],
       FloatingNetworkID = ''net-123'', SecurityGroupID = [], SecurityGroupName = []\<rparr>, None)
   \<and> (\<exists>status. ComputeStatus ''v1alpha1''
         (Some (example_terraformer [''floating_network_id'' \<mapsto> ''net-123''] None))
         (Some (example_config None [] []))
       = Return (Some status, None)
     \<and> FloatingPool (Status_Networks status)
         = \<lparr>FloatingPoolStatus_ID = ''net-123'', FloatingPoolStatus_Name = ''ext-net''\<rparr>)"
proof -
  have e: "ExtractTerraformState
     (Some (example_terraformer [''floating_network_id'' \<mapsto> ''net-123''] None))
     (Some (example_config None [] []))
   = Return (Some \<lparr>SSHKeyName = [], RouterID = [], NetworkID = [], SubnetID = [],
       FloatingNetworkID = ''net-123'', SecurityGroupID = [], SecurityGroupName = []\<rparr>, None)"
    by (simp add: ExtractTerraformState_def example_terraformer_def index_map_def key_defs)
  from compute_status_floating_pool [OF e, of "''v1alpha1''"] e show ?thesis
    by (simp add: example_config_def)
qed

subsection \<open>Router resolution\<close>

text \<open>
  Claim C4. \<open>ComputeTerraformerChartValues\<close> produces its output when the cloud profile is
  decoded and the endpoint is resolved. In that output, a configuration without a router
  gives \<^verbatim>\<open>create.router = true\<close> and the placeholder
  \<^verbatim>\<open>${openstack_networking_router_v2.router.id}\<close> as \<^verbatim>\<open>router.id\<close>; a configuration with a
  router gives \<^verbatim>\<open>create.router = false\<close> and that router's id as \<^verbatim>\<open>router.id\<close>.
\<close>

theorem router_resolution:
  assumes "CloudProfileConfigFromCluster h cluster = (Some cpc, None)"
      and "FindKeyStoneURL h (KeyStoneURLs cpc) (KeyStoneURL cpc) (Region (Spec infr))
           = (url, None)"
  shows "\<exists>vals. ComputeTerraformerChartValues h (Some infr) (Some creds) (Some config) cluster
           = Return (Some vals, None)
         \<and> (Networks_Router (Config_Networks config) = None \<longrightarrow>
              fmlookup vals ''create'' = Some (VMap (fmap_of_list [(''router'', VBool True)]))
            \<and> fmlookup vals ''router'' = Some (VMap (fmap_of_list
                 [(''id'', VString ''${openstack_networking_router_v2.router.id}'')])))
         \<and> (\<forall>router. Networks_Router (Config_Networks config) = Some router \<longrightarrow>
              fmlookup vals ''create'' = Some (VMap (fmap_of_list [(''router'', VBool False)]))
            \<and> fmlookup vals ''router'' = Some (VMap (fmap_of_list
                 [(''id'', VString (Router_ID router))])))"
proof -
  from ComputeTerraformerChartValues_result [OF assms, of creds config]
  show ?thesis by (auto simp: DefaultRouterID_def)
qed

theorem router_resolution_witness:
  "(\<exists>vals. ComputeTerraformerChartValues example_helper (Some (example_infra ''eu''))
       (Some example_credentials) (Some (example_config None ''10.250.0.0/19'' [])) (Some ())
     = Return (Some vals, None)
     \<and> fmlookup vals ''create'' = Some (VMap (fmap_of_list [(''router'', VBool True)]))
     \<and> fmlookup vals ''router'' = Some (VMap (fmap_of_list
          [(''id'', VString ''${openstack_networking_router_v2.router.id}'')])))
   \<and> (\<exists>vals. ComputeTerraformerChartValues example_helper (Some (example_infra ''eu''))
       (Some example_credentials)
       (Some (example_config (Some \<lparr>Router_ID = ''r-1''\<rparr>) ''10.250.0.0/19'' [])) (Some ())
     = Return (Some vals, None)
     \<and> fmlookup vals ''create'' = Some (VMap (fmap_of_list [(''router'', VBool False)]))
     \<and> fmlookup vals ''router'' = Some (VMap (fmap_of_list [(''id'', VString ''r-1'')])))"
proof -
  note a = router_resolution [OF example_decode example_find_eu,
      of example_credentials "example_config None ''10.250.0.0/19'' []"]
  note b = router_resolution [OF example_decode example_find_eu,
      of example_credentials "example_config (Some \<lparr>Router_ID = ''r-1''\<rparr>) ''10.250.0.0/19'' []"]
  have c: "Networks_Router (Config_Networks (example_config r ws w)) = r" for r ws w
    by (simp add: example_config_def)
  from a have "\<exists>vals. ComputeTerraformerChartValues example_helper (Some (example_infra ''eu''))
       (Some example_credentials) (Some (example_config None ''10.250.0.0/19'' [])) (Some ())
     = Return (Some vals, None)
     \<and> fmlookup vals ''create'' = Some (VMap (fmap_of_list [(''router'', VBool True)]))
     \<and> fmlookup vals ''router'' = Some (VMap (fmap_of_list
          [(''id'', VString ''${openstack_networking_router_v2.router.id}'')]))"
    unfolding c by blast
  moreover from b have "\<exists>vals. ComputeTerraformerChartValues example_helper (Some (example_infra ''eu''))
       (Some example_credentials)
       (Some (example_config (Some \<lparr>Router_ID = ''r-1''\<rparr>) ''10.250.0.0/19'' [])) (Some ())
     = Return (Some vals, None)
     \<and> fmlookup vals ''create'' = Some (VMap (fmap_of_list [(''router'', VBool False)]))
     \<and> fmlookup vals ''router'' = Some (VMap (fmap_of_list [(''id'', VString ''r-1'')]))"
    unfolding c by (elim exE conjE) (simp (no_asm_simp))
  ultimately show ?thesis by blast
qed

subsection \<open>Workers CIDR resolution\<close>

text \<open>
  Claim C5. In the output of \<open>ComputeTerraformerChartValues\<close>, \<^verbatim>\<open>networks.workers\<close> is the
  primary field \<open>Workers\<close> whenever that is non-empty, whatever the deprecated field
  \<open>Worker\<close> holds; it is the deprecated field when the primary one is empty; and it is
  the empty string when both are.
\<close>

theorem workers_cidr_resolution:
  assumes "CloudProfileConfigFromCluster h cluster = (Some cpc, None)"
      and "FindKeyStoneURL h (KeyStoneURLs cpc) (KeyStoneURL cpc) (Region (Spec infr))
           = (url, None)"
  shows "\<exists>vals workers. ComputeTerraformerChartValues h (Some infr) (Some creds) (Some config) cluster
           = Return (Some vals, None)
         \<and> fmlookup vals ''networks'' = Some (VMap (fmap_of_list [(''workers'', VString workers)]))
         \<and> (Workers (Config_Networks config) \<noteq> [] \<longrightarrow>
              workers = Workers (Config_Networks config))
         \<and> (Workers (Config_Networks config) = [] \<longrightarrow>
              workers = Worker (Config_Networks config))
         \<and> (Workers (Config_Networks config) = [] \<and> Worker (Config_Networks config) = [] \<longrightarrow>
              workers = [])"
proof -
  from ComputeTerraformerChartValues_result [OF assms, of creds config]
  show ?thesis by auto
qed

theorem workers_cidr_resolution_witness:
  "(\<exists>vals. ComputeTerraformerChartValues example_helper (Some (example_infra ''eu''))
       (Some example_credentials) (Some (example_config None ''10.250.0.0/19'' ''10.0.0.0/24''))
       (Some ()) = Return (Some vals, None)
     \<and> fmlookup vals ''networks''
         = Some (VMap (fmap_of_list [(''workers'', VString ''10.250.0.0/19'')])))
   \<and> (\<exists>vals. ComputeTerraformerChartValues example_helper (Some (example_infra ''eu''))
       (Some example_credentials) (Some (example_config None [] ''10.0.0.0/24''))
       (Some ()) = Return (Some vals, None)
     \<and> fmlookup vals ''networks''
         = Some (VMap (fmap_of_list [(''workers'', VString ''10.0.0.0/24'')])))
   \<and> (\<exists>vals. ComputeTerraformerChartValues example_helper (Some (example_infra ''eu''))
       (Some example_credentials) (Some (example_config None [] []))
       (Some ()) = Return (Some vals, None)
     \<and> fmlookup vals ''networks'' = Some (VMap (fmap_of_list [(''workers'', VString [])])))"
proof -
  have c: "Workers (Config_Networks (example_config r ws w)) = ws"
          "Worker (Config_Networks (example_config r ws w)) = w" for r ws w
    by (simp_all add: example_config_def)
  note t = workers_cidr_resolution [OF example_decode example_find_eu, of example_credentials]
  from t [of "example_config None ''10.250.0.0/19'' ''10.0.0.0/24''"]
  have 1: "\<exists>vals. ComputeTerraformerChartValues example_helper (Some (example_infra ''eu''))
       (Some example_credentials) (Some (example_config None ''10.250.0.0/19'' ''10.0.0.0/24''))
       (Some ()) = Return (Some vals, None)
     \<and> fmlookup vals ''networks''
         = Some (VMap (fmap_of_list [(''workers'', VString ''10.250.0.0/19'')]))"
    unfolding c by (elim exE conjE) (simp (no_asm_simp))
  from t [of "example_config None [] ''10.0.0.0/24''"]
  have 2: "\<exists>vals. ComputeTerraformerChartValues example_helper (Some (example_infra ''eu''))
       (Some example_credentials) (Some (example_config None [] ''10.0.0.0/24''))
       (Some ()) = Return (Some vals, None)
     \<and> fmlookup vals ''networks''
         = Some (VMap (fmap_of_list [(''workers'', VString ''10.0.0.0/24'')]))"
    unfolding c by (elim exE conjE) (simp (no_asm_simp))
  from t [of "example_config None [] []"]
  have 3: "\<exists>vals. ComputeTerraformerChartValues example_helper (Some (example_infra ''eu''))
       (Some example_credentials) (Some (example_config None [] []))
       (Some ()) = Return (Some vals, None)
     \<and> fmlookup vals ''networks'' = Some (VMap (fmap_of_list [(''workers'', VString [])]))"
    unfolding c by (elim exE conjE) (simp (no_asm_simp))
  from 1 2 3 show ?thesis by blast
qed

subsection \<open>Errors leave no partial result\<close>

text \<open>
  Claim C6. When decoding the cloud profile fails, or resolving the endpoint fails,
  \<open>ComputeTerraformerChartValues\<close> returns that error and a \<^verbatim>\<open>nil\<close> result; when the output
  store fails, \<open>ExtractTerraformState\<close> and \<open>ComputeStatus\<close> return that error and a
  \<^verbatim>\<open>nil\<close> result. None of the three functions ever returns a result next to an error.
\<close>

theorem all_or_nothing:
  "(CloudProfileConfigFromCluster h cluster = (cpc', Some err1) \<longrightarrow>
      ComputeTerraformerChartValues h infra credentials (Some cfg) cluster
      = Return (None, Some err1))
   \<and> (CloudProfileConfigFromCluster h cluster = (Some cpc, None)
      \<and> FindKeyStoneURL h (KeyStoneURLs cpc) (KeyStoneURL cpc) (Region (Spec infr))
        = (url, Some err2) \<longrightarrow>
      ComputeTerraformerChartValues h (Some infr) credentials (Some cfg) cluster
      = Return (None, Some err2))
   \<and> (GetStateOutputVariables t [''key_name'', ''router_id'', ''network_id'', ''subnet_id'',
         ''floating_network_id'', ''security_group_id'', ''security_group_name'']
       = (vars, Some err3) \<longrightarrow>
      ExtractTerraformState (Some t) config = Return (None, Some err3)
      \<and> ComputeStatus sgv (Some t) config = Return (None, Some err3))
   \<and> ComputeTerraformerChartValues h infra credentials config' cluster
       \<noteq> Return (Some vals, Some err4)
   \<and> ExtractTerraformState tf config \<noteq> Return (Some state, Some err5)
   \<and> ComputeStatus sgv tf config \<noteq> Return (Some status, Some err5)"
proof (intro conjI impI)
  assume "CloudProfileConfigFromCluster h cluster = (cpc', Some err1)"
  then show "ComputeTerraformerChartValues h infra credentials (Some cfg) cluster
      = Return (None, Some err1)"
    by (simp add: ComputeTerraformerChartValues_def split: prod.splits option.splits)
next
  assume "CloudProfileConfigFromCluster h cluster = (Some cpc, None)
      \<and> FindKeyStoneURL h (KeyStoneURLs cpc) (KeyStoneURL cpc) (Region (Spec infr))
        = (url, Some err2)"
  then show "ComputeTerraformerChartValues h (Some infr) credentials (Some cfg) cluster
      = Return (None, Some err2)"
    by (simp add: ComputeTerraformerChartValues_def split: prod.splits option.splits)
next
  assume a: "GetStateOutputVariables t [''key_name'', ''router_id'', ''network_id'',
         ''subnet_id'', ''floating_network_id'', ''security_group_id'', ''security_group_name'']
       = (vars, Some err3)"
  then show e: "ExtractTerraformState (Some t) config = Return (None, Some err3)"
    by (intro ExtractTerraformState_fails) (simp add: key_defs)
  then show "ComputeStatus sgv (Some t) config = Return (None, Some err3)"
    by (simp add: ComputeStatus_def)
qed (rule ComputeTerraformerChartValues_not_both ExtractTerraformState_not_both
      ComputeStatus_not_both)+

theorem all_or_nothing_witness:
  "ComputeTerraformerChartValues example_helper (Some (example_infra ''eu''))
     (Some example_credentials) (Some (example_config None [] [])) None
   = Return (None, Some ConfigDecodeError)
   \<and> ComputeTerraformerChartValues example_helper (Some (example_infra ''us''))
     (Some example_credentials) (Some (example_config None [] [])) (Some ())
   = Return (None, Some ConfigResolutionError)
   \<and> ExtractTerraformState (Some (example_terraformer Map.empty (Some StateAccessError)))
     (Some (example_config None [] []))
   = Return (None, Some StateAccessError)
   \<and> ComputeStatus ''v1alpha1'' (Some (example_terraformer Map.empty (Some StateAccessError)))
     (Some (example_config None [] []))
   = Return (None, Some StateAccessError)"
proof -
  have d: "CloudProfileConfigFromCluster example_helper None = (None, Some ConfigDecodeError)"
    by (simp add: example_helper_def)
  have g: "GetStateOutputVariables (example_terraformer Map.empty (Some StateAccessError))
      [''key_name'', ''router_id'', ''network_id'', ''subnet_id'',
       ''floating_network_id'', ''security_group_id'', ''security_group_name'']
     = (Map.empty, Some StateAccessError)"
    by (simp add: example_terraformer_def)
  note t = all_or_nothing [where h = example_helper and cfg = "example_config None [] []"
      and credentials = "Some example_credentials" and sgv = "''v1alpha1''"
      and config = "Some (example_config None [] [])"
      and t = "example_terraformer Map.empty (Some StateAccessError)"]
  note 1 = t [where cluster = None and infra = "Some (example_infra ''eu'')",
      THEN conjunct1, THEN mp, OF d]
  note 2 = t [where cluster = "Some ()" and infr = "example_infra ''us''",
      THEN conjunct2, THEN conjunct1, THEN mp, OF conjI [OF example_decode example_find_us]]
  note 3 = t [THEN conjunct2, THEN conjunct2, THEN conjunct1, THEN mp, OF g]
  from 1 2 3 show ?thesis by blast
qed

subsection \<open>Type metadata of the status\<close>

text \<open>
  Claim C7. Every status that \<open>StatusFromTerraformState\<close> returns, and so every status
  that \<open>ComputeStatus\<close> returns, carries the kind \<^verbatim>\<open>InfrastructureStatus\<close> and the rendered
  scheme group version as its API version: the value of \<open>StatusTypeMeta\<close>.
\<close>

theorem status_type_meta:
  "(StatusFromTerraformState sgv state = Return status \<longrightarrow>
      Status_TypeMeta status = StatusTypeMeta sgv
      \<and> Kind (Status_TypeMeta status) = ''InfrastructureStatus''
      \<and> APIVersion (Status_TypeMeta status) = sgv)
   \<and> (ComputeStatus sgv tf config = Return (Some status', err) \<longrightarrow>
      Status_TypeMeta status' = StatusTypeMeta sgv
      \<and> Kind (Status_TypeMeta status') = ''InfrastructureStatus''
      \<and> APIVersion (Status_TypeMeta status') = sgv)"
proof (intro conjI impI)
  assume a: "StatusFromTerraformState sgv state = Return status"
  then show m: "Status_TypeMeta status = StatusTypeMeta sgv"
    by (auto simp: StatusFromTerraformState_def StatusTypeMeta_def split: option.splits)
  show "Kind (Status_TypeMeta status) = ''InfrastructureStatus''"
    and "APIVersion (Status_TypeMeta status) = sgv"
    unfolding m by (simp_all add: StatusTypeMeta_def)
next
  assume a: "ComputeStatus sgv tf config = Return (Some status', err)"
  then show m: "Status_TypeMeta status' = StatusTypeMeta sgv"
    by (auto simp: ComputeStatus_def StatusFromTerraformState_def StatusTypeMeta_def
          split: outcome.splits option.splits prod.splits)
  show "Kind (Status_TypeMeta status') = ''InfrastructureStatus''"
    and "APIVersion (Status_TypeMeta status') = sgv"
    unfolding m by (simp_all add: StatusTypeMeta_def)
qed

theorem status_type_meta_witness:
  "(\<exists>status. StatusFromTerraformState ''openstack.provider.extensions.gardener.cloud/v1alpha1''
       (Some \<lparr>SSHKeyName = ''k'', RouterID = ''r'', NetworkID = ''n'', SubnetID = ''s'',
         FloatingNetworkID = ''f'', SecurityGroupID = ''g'', SecurityGroupName = ''gn''\<rparr>)
     = Return status
     \<and> Status_TypeMeta status
       = \<lparr>APIVersion = ''openstack.provider.extensions.gardener.cloud/v1alpha1'',
          Kind = ''InfrastructureStatus''\<rparr>)
   \<and> (\<exists>status. ComputeStatus ''openstack.provider.extensions.gardener.cloud/v1alpha1''
       (Some (example_terraformer [''floating_network_id'' \<mapsto> ''net-123''] None))
       (Some (example_config None [] []))
     = Return (Some status, None)
     \<and> Status_TypeMeta status
       = \<lparr>APIVersion = ''openstack.provider.extensions.gardener.cloud/v1alpha1'',
          Kind = ''InfrastructureStatus''\<rparr>)"
proof -
  obtain s1 where s1: "StatusFromTerraformState
       ''openstack.provider.extensions.gardener.cloud/v1alpha1''
       (Some \<lparr>SSHKeyName = ''k'', RouterID = ''r'', NetworkID = ''n'', SubnetID = ''s'',
         FloatingNetworkID = ''f'', SecurityGroupID = ''g'', SecurityGroupName = ''gn''\<rparr>)
     = Return s1"
    by (simp add: StatusFromTerraformState_def)
  obtain s2 where s2: "ComputeStatus ''openstack.provider.extensions.gardener.cloud/v1alpha1''
       (Some (example_terraformer [''floating_network_id'' \<mapsto> ''net-123''] None))
       (Some (example_config None [] []))
     = Return (Some s2, None)"
    by (simp add: ComputeStatus_def example_extract StatusFromTerraformState_def)
  note a = status_type_meta [THEN conjunct1, THEN mp, OF s1, THEN conjunct1]
  note b = status_type_meta [THEN conjunct2, THEN mp, OF s2, THEN conjunct1]
  from s1 s2 a b show ?thesis
    unfolding StatusTypeMeta_def by blast
qed

subsection \<open>Determinism of the chart values\<close>



subsection \<open>Keys missing from the output store\<close>

text \<open>
  Claim C9. When the output store answers the request without an error,
  \<open>ExtractTerraformState\<close> returns a state and no error, whatever keys the answer holds,
  and the field of every key missing from the answer is the empty string.
\<close>

theorem missing_keys_default:
  assumes "GetStateOutputVariables t [''key_name'', ''router_id'', ''network_id'', ''subnet_id'',
             ''floating_network_id'', ''security_group_id'', ''security_group_name'']
           = (vars, None)"
  shows "\<exists>state. ExtractTerraformState (Some t) config = Return (Some state, None)
         \<and> (vars ''key_name'' = None \<longrightarrow> SSHKeyName state = [])
         \<and> (vars ''router_id'' = None \<longrightarrow> RouterID state = [])
         \<and> (vars ''network_id'' = None \<longrightarrow> NetworkID state = [])
         \<and> (vars ''subnet_id'' = None \<longrightarrow> SubnetID state = [])
         \<and> (vars ''floating_network_id'' = None \<longrightarrow> FloatingNetworkID state = [])
         \<and> (vars ''security_group_id'' = None \<longrightarrow> SecurityGroupID state = [])
         \<and> (vars ''security_group_name'' = None \<longrightarrow> SecurityGroupName state = [])"
proof -
  from assms have "GetStateOutputVariables t [TerraformOutputKeySSHKeyName,
      TerraformOutputKeyRouterID, TerraformOutputKeyNetworkID, TerraformOutputKeySubnetID,
      TerraformOutputKeyFloatingNetworkID, TerraformOutputKeySecurityGroupID,
      TerraformOutputKeySecurityGroupName] = (vars, None)"
    by (simp add: key_defs)
  then have "ExtractTerraformState (Some t) config = Return (Some \<lparr>
      SSHKeyName = index_map vars ''key_name'',
      RouterID = index_map vars ''router_id'',
      NetworkID = index_map vars ''network_id'',
      SubnetID = index_map vars ''subnet_id'',
      FloatingNetworkID = index_map vars ''floating_network_id'',
      SecurityGroupID = index_map vars ''security_group_id'',
      SecurityGroupName = index_map vars ''security_group_name''\<rparr>, None)"
    by (simp add: ExtractTerraformState_def key_defs)
  then show ?thesis by (simp add: index_map_def)
qed

theorem missing_keys_default_witness:
  "GetStateOutputVariables (example_terraformer [''floating_network_id'' \<mapsto> ''net-123''] None)
     [''key_name'', ''router_id'', ''network_id'', ''subnet_id'',
      ''floating_network_id'', ''security_group_id'', ''security_group_name'']
   = ([''floating_network_id'' \<mapsto> ''net-123''], None)
   \<and> ExtractTerraformState
     (Some (example_terraformer [''floating_network_id'' \<mapsto> ''net-123''] None)) None
   = Return (Some \<lparr>SSHKeyName = [], RouterID = [], NetworkID = [], SubnetID = [],
       FloatingNetworkID = ''net-123'', SecurityGroupID = [], SecurityGroupName = []\<rparr>, None)"
proof -
  have g: "GetStateOutputVariables
     (example_terraformer [''floating_network_id'' \<mapsto> ''net-123''] None)
     [''key_name'', ''router_id'', ''network_id'', ''subnet_id'',
      ''floating_network_id'', ''security_group_id'', ''security_group_name'']
   = ([''floating_network_id'' \<mapsto> ''net-123''], None)"
    by (auto simp: example_terraformer_def restrict_map_def)
  from missing_keys_default [OF g, of None] obtain state where
    s: "ExtractTerraformState
     (Some (example_terraformer [''floating_network_id'' \<mapsto> ''net-123''] None)) None
     = Return (Some state, None)"
    and "SSHKeyName state = []" "RouterID state = []" "NetworkID state = []"
      "SubnetID state = []" "SecurityGroupID state = []" "SecurityGroupName state = []"
    by auto
  with g example_extract [of None] show ?thesis by simp
qed

subsection \<open>The extracted state ignores the configuration\<close>

text \<open>
  Claim C10. \<open>ExtractTerraformState\<close> does not depend on its configuration argument: for
  every output store and any two configurations (\<^verbatim>\<open>nil\<close> included) the results are equal.
\<close>

theorem extract_ignores_config:
  "ExtractTerraformState tf c1 = ExtractTerraformState tf c2"
  by (simp add: ExtractTerraformState_def)

end
